theory Spec2Isabelle
  imports Complex_Main "HOL-Library.Word" "HOL-Library.Signed_Division"
begin

section \<open>The monitor capture source (duplicator-monitor-capture.c)\<close>

text \<open>
  The source file is a plugin of a host application. Everything it does goes through
  calls into the host (the graphics subsystem, the duplication API, the settings store)
  and into the cursor helper. None of these are defined in the file, so the model takes
  their answers from an environment record and writes every call it issues to a trace.
  Each operation of the source becomes a function from the session structure to the
  updated structure and the list of calls made, in program order.

  Numbers. \<open>uint32_t\<close> is \<open>32 word\<close>. \<open>int\<close> and \<open>long\<close> fields are only
  assigned, compared and negated, so they are \<open>int\<close>; the one narrowing conversion
  (\<open>long long\<close> to \<open>int\<close>) is written out. The remainder operator of C truncates
  towards zero and is \<open>smod\<close>. A \<open>float\<close> is modelled by the real number it denotes.
  The conversions \<open>(float)v\<close> of an integer round to the nearest binary32 value, ties
  to even, as the target does. The one addition, on the retry time, is the exact one and
  there is no NaN or infinity; for the values 0, 1, 2 and 3, on which the retry gate is
  analysed, binary32 addition is exact as well.
\<close>

subsection \<open>Data\<close>

type_synonym float = real

text \<open>Pointers to host objects: an address; a null pointer is \<open>None\<close>.\<close>

type_synonym obs_source = nat
type_synonym gs_duplicator = nat
type_synonym gs_texture = nat
type_synonym gs_effect = nat

text \<open>
  \<open>struct cursor_data\<close> is declared in cursor-capture.h; only its address is ever
  passed on, so its contents are an opaque number, 0 after \<open>bzalloc\<close>.
\<close>

datatype cursor_data = Cursor_data nat

text \<open>
  \<open>struct gs_monitor_info\<close> is declared by the host. The fields are named
  \<open>rotation_degrees\<close>, \<open>x\<close>, \<open>y\<close>, \<open>cx\<close>, \<open>cy\<close> there; the prefix keeps them apart
  from the fields of the session.
\<close>

record gs_monitor_info =
  rotation_degrees :: int
  info_x :: int
  info_y :: int
  info_cx :: int
  info_cy :: int

definition zero_monitor_info :: gs_monitor_info where
  "zero_monitor_info =
     \<lparr>rotation_degrees = 0, info_x = 0, info_y = 0, info_cx = 0, info_cy = 0\<rparr>"

record duplicator_capture =
  source :: obs_source
  monitor :: int
  capture_cursor :: bool
  x :: int
  y :: int
  rot :: int
  width :: "32 word"
  height :: "32 word"
  duplicator :: "gs_duplicator option"
  reset_timeout :: float
  cursor_data :: cursor_data

text \<open>The settings object, seen through the two accessors the source calls.\<close>

record obs_data =
  obs_data_get_int :: "string \<Rightarrow> int"
  obs_data_get_bool :: "string \<Rightarrow> bool"

text \<open>
  \<open>RAD(v)\<close> is a macro of the host's headers turning degrees into radians. It is kept
  unexpanded: the argument of the rotation call is \<open>RAD v\<close> with \<open>v\<close> in degrees.
\<close>

datatype angle = RAD float

text \<open>
  The calls the source issues. A \<open>float\<close> argument that is read from a local variable
  is a \<open>float option\<close>: \<open>None\<close> is the indeterminate value of a variable that was declared
  without an initialiser and never assigned.
\<close>

datatype call =
    Obs_source_showing obs_source
  | Obs_enter_graphics
  | Obs_leave_graphics
  | Obs_data_get_int string
  | Obs_data_get_bool string
  | Gs_duplicator_create int
  | Gs_duplicator_destroy "gs_duplicator option"
  | Gs_duplicator_update_frame gs_duplicator
  | Gs_duplicator_get_texture "gs_duplicator option"
  | Gs_get_duplicator_monitor_info int
  | Gs_texture_get_width "gs_texture option"
  | Gs_texture_get_height "gs_texture option"
  | Cursor_capture
  | Cursor_data_free
  | Cursor_draw int int float float "32 word" "32 word"
  | Obs_get_default_effect
  | Gs_effect_loop gs_effect string
  | Gs_enable_blending bool
  | Gs_enable_color bool bool bool bool
  | Gs_matrix_push
  | Gs_matrix_translate3f "float option" "float option" float
  | Gs_matrix_rotaa4f float float float angle
  | Gs_matrix_pop
  | Obs_source_draw gs_texture int int int int bool

text \<open>
  The answers of the host during one operation. Every function of the host is called at
  most once per operation, except \<open>gs_effect_loop\<close>, whose answer is the number of times
  it returns true before it returns false (the passes of the technique).
  \<open>gs_get_duplicator_monitor_info\<close> receives the structure behind its out-pointer and
  returns its result together with the structure as it leaves it.
\<close>

record env =
  obs_source_showing :: "obs_source \<Rightarrow> bool"
  gs_duplicator_create :: "int \<Rightarrow> gs_duplicator option"
  gs_duplicator_update_frame :: "gs_duplicator \<Rightarrow> bool"
  gs_duplicator_get_texture :: "gs_duplicator option \<Rightarrow> gs_texture option"
  gs_texture_get_width :: "gs_texture option \<Rightarrow> 32 word"
  gs_texture_get_height :: "gs_texture option \<Rightarrow> 32 word"
  gs_get_duplicator_monitor_info :: "int \<Rightarrow> gs_monitor_info \<Rightarrow> bool \<times> gs_monitor_info"
  cursor_capture :: "cursor_data \<Rightarrow> cursor_data"
  obs_get_default_effect :: gs_effect
  gs_effect_loop :: "gs_effect \<Rightarrow> string \<Rightarrow> nat"

subsection \<open>Constants and conversions\<close>

definition RESET_INTERVAL_SEC :: float where
  "RESET_INTERVAL_SEC = 3"

text \<open>\<open>(int)v\<close> for a \<open>long long\<close>: the low 32 bits, read as two's complement.\<close>

definition int_of_long_long :: "int \<Rightarrow> int" where
  "int_of_long_long v = signed_take_bit 31 v"

text \<open>
  \<open>(float)v\<close> for an integer. A binary32 value has a significand of 24 bits, so a
  natural number below \<open>2 ^ 24\<close> converts to itself and a larger one loses its low
  \<open>k\<close> bits, where \<open>k\<close> is the number of halvings that bring it below \<open>2 ^ 24\<close>. The
  bits lost round to the nearest, and to the even significand when they are exactly a
  half. All of \<open>uint32_t\<close> and \<open>int\<close> is far below the largest binary32 value.
\<close>

fun float_exponent :: "nat \<Rightarrow> nat" where
  "float_exponent n = (if n < 2 ^ 24 then 0 else Suc (float_exponent (n div 2)))"

declare float_exponent.simps [simp del]

definition round_binary32 :: "nat \<Rightarrow> nat" where
  "round_binary32 n =
     (let k = float_exponent n; q = n div 2 ^ k; r = n mod 2 ^ k
      in if 2 * r > 2 ^ k \<or> (2 * r = 2 ^ k \<and> odd q) then (q + 1) * 2 ^ k
         else q * 2 ^ k)"

definition float_of_uint32 :: "32 word \<Rightarrow> float" where
  "float_of_uint32 v = real (round_binary32 (unat v))"

definition float_of_int :: "int \<Rightarrow> float" where
  "float_of_int v = real_of_int (sgn v * int (round_binary32 (nat \<bar>v\<bar>)))"

subsection \<open>Configuration\<close>

definition update_settings ::
  "env \<Rightarrow> obs_data \<Rightarrow> duplicator_capture \<Rightarrow> duplicator_capture \<times> call list" where
  "update_settings e settings capture =
     (let c1 = capture\<lparr>monitor := int_of_long_long (obs_data_get_int settings ''monitor'')\<rparr>;
          c2 = c1\<lparr>capture_cursor := obs_data_get_bool settings ''capture_cursor''\<rparr>;
          old = duplicator c2;
          c3 = c2\<lparr>duplicator := gs_duplicator_create e (monitor c2)\<rparr>;
          c4 = c3\<lparr>width := 0, height := 0, x := 0, y := 0, rot := 0, reset_timeout := 0\<rparr>
      in (c4,
          [Obs_data_get_int ''monitor'', Obs_data_get_bool ''capture_cursor'',
           Obs_enter_graphics,
           Gs_duplicator_destroy old, Gs_duplicator_create (monitor c2),
           Obs_leave_graphics]))"

definition duplicator_capture_update ::
  "env \<Rightarrow> obs_data \<Rightarrow> duplicator_capture \<Rightarrow> duplicator_capture \<times> call list" where
  "duplicator_capture_update e settings mc = update_settings e settings mc"

text \<open>The structure as \<open>bzalloc\<close> returns it: every byte zero.\<close>

definition bzalloc_capture :: duplicator_capture where
  "bzalloc_capture =
     \<lparr>source = 0, monitor = 0, capture_cursor = False, x = 0, y = 0, rot = 0,
      width = 0, height = 0, duplicator = None, reset_timeout = 0,
      cursor_data = Cursor_data 0\<rparr>"

definition duplicator_capture_create ::
  "env \<Rightarrow> obs_data \<Rightarrow> obs_source \<Rightarrow> duplicator_capture \<times> call list" where
  "duplicator_capture_create e settings src =
     update_settings e settings (bzalloc_capture\<lparr>source := src\<rparr>)"

definition duplicator_capture_destroy :: "duplicator_capture \<Rightarrow> call list" where
  "duplicator_capture_destroy capture =
     [Obs_enter_graphics, Gs_duplicator_destroy (duplicator capture), Cursor_data_free,
      Obs_leave_graphics]"

subsection \<open>The tick\<close>

definition reset_capture_data ::
  "env \<Rightarrow> duplicator_capture \<Rightarrow> duplicator_capture \<times> call list" where
  "reset_capture_data e capture =
     (let texture = gs_duplicator_get_texture e (duplicator capture);
          monitor_info = snd (gs_get_duplicator_monitor_info e (monitor capture)
                                zero_monitor_info)
      in (capture\<lparr>width := gs_texture_get_width e texture,
                  height := gs_texture_get_height e texture,
                  x := info_x monitor_info,
                  y := info_y monitor_info,
                  rot := rotation_degrees monitor_info\<rparr>,
          [Gs_duplicator_get_texture (duplicator capture),
           Gs_get_duplicator_monitor_info (monitor capture),
           Gs_texture_get_width texture, Gs_texture_get_height texture]))"

text \<open>Lines 129 to 138: the retry gate while no duplicator is held.\<close>

definition tick_retry ::
  "env \<Rightarrow> float \<Rightarrow> duplicator_capture \<Rightarrow> duplicator_capture \<times> call list" where
  "tick_retry e seconds capture =
     (if duplicator capture = None then
        (let c1 = capture\<lparr>reset_timeout := reset_timeout capture + seconds\<rparr>
         in if reset_timeout c1 \<ge> RESET_INTERVAL_SEC then
              (c1\<lparr>duplicator := gs_duplicator_create e (monitor c1), reset_timeout := 0\<rparr>,
               [Gs_duplicator_create (monitor c1)])
            else (c1, []))
      else (capture, []))"

text \<open>Lines 140 to 157: cursor sampling and the frame update while a duplicator is held.\<close>

definition tick_frame ::
  "env \<Rightarrow> duplicator_capture \<Rightarrow> duplicator_capture \<times> call list" where
  "tick_frame e capture =
     (case duplicator capture of
        None \<Rightarrow> (capture, [])
      | Some d \<Rightarrow>
         (let (c1, t1) =
                (if capture_cursor capture then
                   (capture\<lparr>cursor_data := cursor_capture e (cursor_data capture)\<rparr>,
                    [Cursor_capture])
                 else (capture, []))
          in if \<not> gs_duplicator_update_frame e d then
               (c1\<lparr>duplicator := None, width := 0, height := 0, x := 0, y := 0, rot := 0,
                   reset_timeout := 0\<rparr>,
                t1 @ [Gs_duplicator_update_frame d, Gs_duplicator_destroy (Some d)])
             else if width c1 = 0 then
               (let (c2, t2) = reset_capture_data e c1
                in (c2, t1 @ [Gs_duplicator_update_frame d] @ t2))
             else (c1, t1 @ [Gs_duplicator_update_frame d])))"

definition duplicator_capture_tick ::
  "env \<Rightarrow> float \<Rightarrow> duplicator_capture \<Rightarrow> duplicator_capture \<times> call list" where
  "duplicator_capture_tick e seconds capture =
     (if \<not> obs_source_showing e (source capture) then
        (capture, [Obs_source_showing (source capture)])
      else
        (let (c1, t1) = tick_retry e seconds capture;
             (c2, t2) = tick_frame e c1
         in (c2, [Obs_source_showing (source capture), Obs_enter_graphics] @ t1 @ t2 @
                 [Obs_leave_graphics])))"

subsection \<open>Sizes and rendering\<close>

definition duplicator_capture_width :: "duplicator_capture \<Rightarrow> 32 word" where
  "duplicator_capture_width capture =
     (if rot capture smod 180 = 0 then width capture else height capture)"

definition duplicator_capture_height :: "duplicator_capture \<Rightarrow> 32 word" where
  "duplicator_capture_height capture =
     (if rot capture smod 180 = 0 then height capture else width capture)"

text \<open>
  The offsets are negated as integers. C leaves the negation of the least \<open>long\<close>
  undefined; no other value differs.
\<close>

definition draw_cursor :: "duplicator_capture \<Rightarrow> call list" where
  "draw_cursor capture =
     [Cursor_draw (- x capture) (- y capture) 1 1
        (if rot capture smod 180 = 0 then width capture else height capture)
        (if rot capture smod 180 = 0 then height capture else width capture)]"

text \<open>
  Lines 205 to 227: the block guarded by \<open>rot != 0\<close>. The locals \<open>x\<close> and \<open>y\<close> have no
  initialiser and the switch has no default label, so they are assigned in three cases
  only. They are \<open>tx\<close> and \<open>ty\<close> here, \<open>x\<close> and \<open>y\<close> being fields of the session.
\<close>

definition render_transform :: "duplicator_capture \<Rightarrow> int \<Rightarrow> call list" where
  "render_transform capture r =
     (if r \<noteq> 0 then
        (let (tx, ty) =
               (if r = 90 then (Some (float_of_uint32 (height capture)), Some 0)
                else if r = 180 then
                  (Some (float_of_uint32 (width capture)),
                   Some (float_of_uint32 (height capture)))
                else if r = 270 then (Some 0, Some (float_of_uint32 (width capture)))
                else (None, None))
         in [Gs_matrix_push, Gs_matrix_translate3f tx ty 0,
             Gs_matrix_rotaa4f 0 0 1 (RAD (float_of_int r))])
      else [])"

text \<open>The body of the loop over the passes of the effect (lines 202 to 238).\<close>

definition render_pass :: "duplicator_capture \<Rightarrow> gs_texture \<Rightarrow> int \<Rightarrow> call list" where
  "render_pass capture texture r =
     [Gs_enable_blending False, Gs_enable_color True True True False] @
     render_transform capture r @
     [Obs_source_draw texture 0 0 0 0 False] @
     (if r \<noteq> 0 then [Gs_matrix_pop] else []) @
     [Gs_enable_blending True, Gs_enable_color True True True True] @
     (if capture_cursor capture then draw_cursor capture else [])"

fun render_loop :: "nat \<Rightarrow> gs_effect \<Rightarrow> call list \<Rightarrow> call list" where
  "render_loop 0 effect body = [Gs_effect_loop effect ''Draw'']"
| "render_loop (Suc n) effect body =
     Gs_effect_loop effect ''Draw'' # body @ render_loop n effect body"

definition duplicator_capture_render ::
  "env \<Rightarrow> duplicator_capture \<Rightarrow> duplicator_capture \<times> call list" where
  "duplicator_capture_render e capture =
     (if duplicator capture = None then (capture, [])
      else
        (case gs_duplicator_get_texture e (duplicator capture) of
           None \<Rightarrow> (capture, [Gs_duplicator_get_texture (duplicator capture)])
         | Some texture \<Rightarrow>
            (let effect = obs_get_default_effect e;
                 r = rot capture
             in (capture,
                 [Gs_duplicator_get_texture (duplicator capture), Obs_get_default_effect] @
                 render_loop (gs_effect_loop e effect ''Draw'') effect
                   (render_pass capture texture r)))))"

subsection \<open>Observing a run\<close>

text \<open>
  The host calls the tick once per frame. \<open>run_ticks\<close> applies a list of ticks, each
  with the answers of the host during that call and its frame time, and returns the
  session and the calls after each of them.
\<close>

fun run_ticks ::
  "(env \<times> float) list \<Rightarrow> duplicator_capture \<Rightarrow> (duplicator_capture \<times> call list) list" where
  "run_ticks [] capture = []"
| "run_ticks ((e, seconds) # rest) capture =
     (let r = duplicator_capture_tick e seconds capture in r # run_ticks rest (fst r))"

text \<open>The sessions the host can hold: created, then reconfigured, ticked and rendered.\<close>

inductive reachable :: "duplicator_capture \<Rightarrow> bool" where
  created: "reachable (fst (duplicator_capture_create e settings src))"
| updated: "reachable c \<Longrightarrow> reachable (fst (duplicator_capture_update e settings c))"
| ticked: "reachable c \<Longrightarrow> reachable (fst (duplicator_capture_tick e seconds c))"
| rendered: "reachable c \<Longrightarrow> reachable (fst (duplicator_capture_render e c))"

fun is_create :: "call \<Rightarrow> bool" where
  "is_create (Gs_duplicator_create m) = True"
| "is_create _ = False"

fun is_monitor_query :: "call \<Rightarrow> bool" where
  "is_monitor_query (Gs_get_duplicator_monitor_info m) = True"
| "is_monitor_query _ = False"

subsection \<open>Sample hosts and sessions\<close>

text \<open>
  Concrete answers of the host, used to run the model: a 1920 by 1080 monitor that can be
  duplicated (duplicator 1, texture 2, effect 3 with one pass), and variations of it.
\<close>

definition settings_default :: obs_data where
  "settings_default = \<lparr>obs_data_get_int = (\<lambda>k. 0), obs_data_get_bool = (\<lambda>k. True)\<rparr>"

definition env_live :: env where
  "env_live =
     \<lparr>obs_source_showing = (\<lambda>s. True),
      gs_duplicator_create = (\<lambda>m. Some 1),
      gs_duplicator_update_frame = (\<lambda>d. True),
      gs_duplicator_get_texture = (\<lambda>d. Some 2),
      gs_texture_get_width = (\<lambda>t. 1920),
      gs_texture_get_height = (\<lambda>t. 1080),
      gs_get_duplicator_monitor_info =
        (\<lambda>m i. (True, \<lparr>rotation_degrees = 0, info_x = 0, info_y = 0,
                        info_cx = 1920, info_cy = 1080\<rparr>)),
      cursor_capture = (\<lambda>cd. cd),
      obs_get_default_effect = 3,
      gs_effect_loop = (\<lambda>f t. 1)\<rparr>"

text \<open>The monitor cannot be duplicated.\<close>

definition env_absent :: env where
  "env_absent = env_live\<lparr>gs_duplicator_create := (\<lambda>m. None)\<rparr>"

text \<open>The source is not shown.\<close>

definition env_hidden :: env where
  "env_hidden = env_live\<lparr>obs_source_showing := (\<lambda>s. False)\<rparr>"

text \<open>The frame update fails.\<close>

definition env_lost :: env where
  "env_lost = env_live\<lparr>gs_duplicator_update_frame := (\<lambda>d. False)\<rparr>"

text \<open>The frame update succeeds, but the duplicator has no texture yet, of width 0.\<close>

definition env_no_frame :: env where
  "env_no_frame =
     env_live\<lparr>gs_duplicator_get_texture := (\<lambda>d. None),
              gs_texture_get_width := (\<lambda>t. 0),
              gs_texture_get_height := (\<lambda>t. 0)\<rparr>"

text \<open>The monitor is turned by a quarter: the texture is 1080 by 1920.\<close>

definition env_portrait :: env where
  "env_portrait =
     env_live\<lparr>gs_texture_get_width := (\<lambda>t. 1080),
              gs_texture_get_height := (\<lambda>t. 1920),
              gs_get_duplicator_monitor_info :=
                (\<lambda>m i. (True, \<lparr>rotation_degrees = 90, info_x = 0, info_y = 0,
                                info_cx = 1920, info_cy = 1080\<rparr>))\<rparr>"

text \<open>A monitor turned by a quarter whose texture is 1080 by 16777219.\<close>

definition env_huge :: env where
  "env_huge =
     env_live\<lparr>gs_texture_get_width := (\<lambda>t. 1080),
              gs_texture_get_height := (\<lambda>t. 16777219),
              gs_get_duplicator_monitor_info :=
                (\<lambda>m i. (True, \<lparr>rotation_degrees = 90, info_x = 0, info_y = 0,
                                info_cx = 16777219, info_cy = 1080\<rparr>))\<rparr>"

text \<open>The monitor information reports a rotation of 45 degrees.\<close>

definition env_tilted :: env where
  "env_tilted =
     env_live\<lparr>gs_get_duplicator_monitor_info :=
                (\<lambda>m i. (True, \<lparr>rotation_degrees = 45, info_x = 0, info_y = 0,
                                info_cx = 1920, info_cy = 1080\<rparr>))\<rparr>"

text \<open>Sessions: just created without and with a duplicator, and after the first frame.\<close>

definition capture_unbound :: duplicator_capture where
  "capture_unbound = fst (duplicator_capture_create env_absent settings_default 7)"

definition capture_unsized :: duplicator_capture where
  "capture_unsized = fst (duplicator_capture_create env_live settings_default 7)"

definition capture_sized :: duplicator_capture where
  "capture_sized = fst (duplicator_capture_tick env_live 1 capture_unsized)"

definition capture_tilted :: duplicator_capture where
  "capture_tilted = fst (duplicator_capture_tick env_tilted 1 capture_unsized)"

definition capture_portrait :: duplicator_capture where
  "capture_portrait = fst (duplicator_capture_tick env_portrait 1 capture_unsized)"

definition capture_huge :: duplicator_capture where
  "capture_huge = fst (duplicator_capture_tick env_huge 1 capture_unsized)"

text \<open>A session that has waited two seconds for a monitor that cannot be duplicated.\<close>

definition capture_waiting :: duplicator_capture where
  "capture_waiting =
     fst (duplicator_capture_tick env_absent 1
            (fst (duplicator_capture_tick env_absent 1 capture_unbound)))"

subsection \<open>The conversions on small numbers\<close>

lemma round_binary32_exact: "n \<le> 2 ^ 24 \<Longrightarrow> round_binary32 n = n"
proof (cases "n < 2 ^ 24")
  case True
  then have "float_exponent n = 0"
    by (simp add: float_exponent.simps)
  then show ?thesis
    by (simp add: round_binary32_def)
next
  case False
  assume "n \<le> 2 ^ 24"
  with False have n: "n = 16777216" by simp
  have "float_exponent 16777216 = 1"
    by (simp add: float_exponent.simps)
  then show ?thesis
    unfolding n by (simp add: round_binary32_def)
qed

lemma float_of_uint32_exact:
  "unat v \<le> 2 ^ 24 \<Longrightarrow> float_of_uint32 v = real (unat v)"
  by (simp add: float_of_uint32_def round_binary32_exact)

lemma float_of_int_exact:
  assumes "\<bar>v\<bar> \<le> 2 ^ 24"
  shows "float_of_int v = real_of_int v"
proof -
  from assms have "nat \<bar>v\<bar> \<le> 2 ^ 24" by simp
  then have "round_binary32 (nat \<bar>v\<bar>) = nat \<bar>v\<bar>"
    by (rule round_binary32_exact)
  then show ?thesis
    by (simp add: float_of_int_def sgn_if)
qed

subsection \<open>The sample sessions, evaluated\<close>

lemma capture_unbound_eq:
  "capture_unbound =
     \<lparr>source = 7, monitor = 0, capture_cursor = True, x = 0, y = 0, rot = 0,
      width = 0, height = 0, duplicator = None, reset_timeout = 0,
      cursor_data = Cursor_data 0\<rparr>"
  by (simp add: capture_unbound_def duplicator_capture_create_def update_settings_def
      bzalloc_capture_def settings_default_def env_absent_def env_live_def
      int_of_long_long_def Let_def)

lemma capture_unsized_eq:
  "capture_unsized =
     \<lparr>source = 7, monitor = 0, capture_cursor = True, x = 0, y = 0, rot = 0,
      width = 0, height = 0, duplicator = Some 1, reset_timeout = 0,
      cursor_data = Cursor_data 0\<rparr>"
  by (simp add: capture_unsized_def duplicator_capture_create_def update_settings_def
      bzalloc_capture_def settings_default_def env_live_def int_of_long_long_def Let_def)

lemma capture_sized_eq:
  "capture_sized =
     \<lparr>source = 7, monitor = 0, capture_cursor = True, x = 0, y = 0, rot = 0,
      width = 1920, height = 1080, duplicator = Some 1, reset_timeout = 0,
      cursor_data = Cursor_data 0\<rparr>"
  by (simp add: capture_sized_def capture_unsized_eq duplicator_capture_tick_def
      tick_retry_def tick_frame_def reset_capture_data_def env_live_def Let_def)

lemma capture_tilted_eq:
  "capture_tilted =
     \<lparr>source = 7, monitor = 0, capture_cursor = True, x = 0, y = 0, rot = 45,
      width = 1920, height = 1080, duplicator = Some 1, reset_timeout = 0,
      cursor_data = Cursor_data 0\<rparr>"
  by (simp add: capture_tilted_def capture_unsized_eq duplicator_capture_tick_def
      tick_retry_def tick_frame_def reset_capture_data_def env_tilted_def env_live_def Let_def)

lemma capture_portrait_eq:
  "capture_portrait =
     \<lparr>source = 7, monitor = 0, capture_cursor = True, x = 0, y = 0, rot = 90,
      width = 1080, height = 1920, duplicator = Some 1, reset_timeout = 0,
      cursor_data = Cursor_data 0\<rparr>"
  by (simp add: capture_portrait_def capture_unsized_eq duplicator_capture_tick_def
      tick_retry_def tick_frame_def reset_capture_data_def env_portrait_def env_live_def
      Let_def)

lemma capture_huge_eq:
  "capture_huge =
     \<lparr>source = 7, monitor = 0, capture_cursor = True, x = 0, y = 0, rot = 90,
      width = 1080, height = 16777219, duplicator = Some 1, reset_timeout = 0,
      cursor_data = Cursor_data 0\<rparr>"
  by (simp add: capture_huge_def capture_unsized_eq duplicator_capture_tick_def
      tick_retry_def tick_frame_def reset_capture_data_def env_huge_def env_live_def
      Let_def)

lemma capture_waiting_eq:
  "capture_waiting =
     \<lparr>source = 7, monitor = 0, capture_cursor = True, x = 0, y = 0, rot = 0,
      width = 0, height = 0, duplicator = None, reset_timeout = 2,
      cursor_data = Cursor_data 0\<rparr>"
  by (simp add: capture_waiting_def capture_unbound_eq duplicator_capture_tick_def
      tick_retry_def tick_frame_def env_absent_def env_live_def RESET_INTERVAL_SEC_def
      Let_def)

section \<open>Configuration resets the cache\<close>

text \<open>
  C4. Whatever the session and the settings are, and whether the duplicator is obtained
  or not, the session that \<open>update_settings\<close> leaves has width, height, origin and
  rotation 0 and a retry time of 0. The same holds through both entry points of the host,
  update and create. The duplicator field is whatever the creation call answered.
\<close>

theorem update_settings_resets_cache:
  "width (fst (update_settings e settings c)) = 0 \<and>
   height (fst (update_settings e settings c)) = 0 \<and>
   x (fst (update_settings e settings c)) = 0 \<and>
   y (fst (update_settings e settings c)) = 0 \<and>
   rot (fst (update_settings e settings c)) = 0 \<and>
   reset_timeout (fst (update_settings e settings c)) = 0 \<and>
   duplicator (fst (update_settings e settings c)) =
     gs_duplicator_create e (int_of_long_long (obs_data_get_int settings ''monitor'')) \<and>
   fst (duplicator_capture_update e settings c) = fst (update_settings e settings c) \<and>
   fst (duplicator_capture_create e settings src) =
     fst (update_settings e settings (bzalloc_capture\<lparr>source := src\<rparr>))"
  by (simp add: update_settings_def duplicator_capture_update_def
      duplicator_capture_create_def Let_def)

section \<open>The hidden source\<close>

text \<open>
  C8. When the host reports the source as not showing, the tick returns the session as
  it received it, for every session and frame time, and the only call it has issued is
  the visibility query: nothing goes to the duplication API, the graphics subsystem or
  the cursor helper.
\<close>

theorem tick_hidden_is_noop:
  "\<not> obs_source_showing e (source c) \<Longrightarrow>
   duplicator_capture_tick e seconds c = (c, [Obs_source_showing (source c)])"
  by (simp add: duplicator_capture_tick_def)

theorem tick_hidden_is_noop_witness:
  "\<not> obs_source_showing env_hidden (source capture_sized) \<and>
   duplicator_capture_tick env_hidden 1 capture_sized =
     (capture_sized, [Obs_source_showing 7])"
proof -
  have h: "\<not> obs_source_showing env_hidden (source capture_sized)"
    by (simp add: env_hidden_def env_live_def)
  show ?thesis
    using h tick_hidden_is_noop [OF h, of 1] by (simp add: capture_sized_eq)
qed

section \<open>A failed frame update\<close>

text \<open>
  C3. A session that holds a duplicator, ticked once while showing with a frame update
  that fails, comes out of that one call without a duplicator and with width, height,
  origin, rotation and retry time all 0. The tick returns a single session, so no
  partly cleared one exists between two ticks. The other fields are as before, apart
  from the cursor data when the cursor is sampled, and the duplicator has been destroyed.
\<close>

theorem tick_update_failure_clears:
  assumes "duplicator c = Some d"
    and "obs_source_showing e (source c)"
    and "\<not> gs_duplicator_update_frame e d"
  shows "fst (duplicator_capture_tick e seconds c) =
           c\<lparr>duplicator := None, width := 0, height := 0, x := 0, y := 0, rot := 0,
             reset_timeout := 0,
             cursor_data := (if capture_cursor c then cursor_capture e (cursor_data c)
                             else cursor_data c)\<rparr> \<and>
         snd (duplicator_capture_tick e seconds c) =
           [Obs_source_showing (source c), Obs_enter_graphics] @
           (if capture_cursor c then [Cursor_capture] else []) @
           [Gs_duplicator_update_frame d, Gs_duplicator_destroy (Some d),
            Obs_leave_graphics]"
  using assms
  by (simp add: duplicator_capture_tick_def tick_retry_def tick_frame_def Let_def)

theorem tick_update_failure_clears_witness:
  "duplicator capture_sized = Some 1 \<and>
   obs_source_showing env_lost (source capture_sized) \<and>
   \<not> gs_duplicator_update_frame env_lost 1 \<and>
   fst (duplicator_capture_tick env_lost 1 capture_sized) = capture_unbound"
proof -
  have h1: "duplicator capture_sized = Some 1"
    by (simp add: capture_sized_eq)
  have h2: "obs_source_showing env_lost (source capture_sized)"
    by (simp add: env_lost_def env_live_def)
  have h3: "\<not> gs_duplicator_update_frame env_lost 1"
    by (simp add: env_lost_def env_live_def)
  show ?thesis
    using h1 h2 h3 tick_update_failure_clears [OF h1 h2 h3, of 1]
    by (simp add: capture_sized_eq capture_unbound_eq env_lost_def env_live_def)
qed

section \<open>Effective dimensions\<close>

text \<open>
  C5. For a cached rotation of 0, 90, 180 or 270 and any cached width \<open>w\<close> and height
  \<open>h\<close>, the width and height queries return \<open>(w, h)\<close> when the rotation is a multiple
  of 180 and \<open>(h, w)\<close> otherwise, that is, the swapped pair exactly for 90 and 270.
  Querying a session whose cached pair is the answer of the queries, under the same
  rotation, gives \<open>(w, h)\<close> back.
\<close>

theorem effective_dimensions_swap:
  assumes "rot c \<in> {0, 90, 180, 270}"
  shows "(duplicator_capture_width c, duplicator_capture_height c) =
           (if rot c mod 180 = 0 then (width c, height c) else (height c, width c)) \<and>
         (duplicator_capture_width c, duplicator_capture_height c) =
           (if rot c = 90 \<or> rot c = 270 then (height c, width c) else (width c, height c)) \<and>
         (duplicator_capture_width
            (c\<lparr>width := duplicator_capture_width c, height := duplicator_capture_height c\<rparr>),
          duplicator_capture_height
            (c\<lparr>width := duplicator_capture_width c, height := duplicator_capture_height c\<rparr>)) =
           (width c, height c)"
  using assms
  by (auto simp: duplicator_capture_width_def duplicator_capture_height_def
      signed_modulo_int_def)

theorem effective_dimensions_swap_witness:
  "rot (capture_sized\<lparr>rot := 90, width := 1080, height := 1920\<rparr>) \<in> {0, 90, 180, 270} \<and>
   (duplicator_capture_width (capture_sized\<lparr>rot := 90, width := 1080, height := 1920\<rparr>),
    duplicator_capture_height (capture_sized\<lparr>rot := 90, width := 1080, height := 1920\<rparr>)) =
     (1920, 1080)"
proof -
  have h: "rot (capture_sized\<lparr>rot := 90, width := 1080, height := 1920\<rparr>) \<in> {0, 90, 180, 270}"
    by simp
  show ?thesis
    using effective_dimensions_swap [OF h] by simp
qed

section \<open>The retry gate\<close>

text \<open>
  One showing tick of a session without a duplicator, with a frame time of 1 and a
  creation that fails if it is tried: the retry time counts 0, 1, 2 and round again, and
  creation is tried exactly on the step back to 0.
\<close>

lemma tick_unbound_fail:
  assumes "duplicator c = None"
    and "obs_source_showing e (source c)"
    and "gs_duplicator_create e (monitor c) = None"
  shows "duplicator_capture_tick e seconds c =
    (if reset_timeout c + seconds \<ge> 3
     then (c\<lparr>reset_timeout := 0\<rparr>,
           [Obs_source_showing (source c), Obs_enter_graphics,
            Gs_duplicator_create (monitor c), Obs_leave_graphics])
     else (c\<lparr>reset_timeout := reset_timeout c + seconds\<rparr>,
           [Obs_source_showing (source c), Obs_enter_graphics, Obs_leave_graphics]))"
  using assms
  by (cases c) (simp add: duplicator_capture_tick_def tick_retry_def tick_frame_def Let_def
      RESET_INTERVAL_SEC_def)

lemma tick_unbound_step:
  assumes "duplicator c = None"
    and "reset_timeout c = real k"
    and "k < 3"
    and "obs_source_showing e (source c)"
    and "gs_duplicator_create e (monitor c) = None"
  shows "duplicator (fst (duplicator_capture_tick e 1 c)) = None"
    and "source (fst (duplicator_capture_tick e 1 c)) = source c"
    and "monitor (fst (duplicator_capture_tick e 1 c)) = monitor c"
    and "reset_timeout (fst (duplicator_capture_tick e 1 c)) = real ((k + 1) mod 3)"
    and "list_ex is_create (snd (duplicator_capture_tick e 1 c)) \<longleftrightarrow> (k + 1) mod 3 = 0"
proof -
  note step = tick_unbound_fail [OF assms(1,4,5), of 1]
  from assms(3) consider "k = 0" | "k = 1" | "k = 2" by arith
  then have "duplicator (fst (duplicator_capture_tick e 1 c)) = None \<and>
    source (fst (duplicator_capture_tick e 1 c)) = source c \<and>
    monitor (fst (duplicator_capture_tick e 1 c)) = monitor c \<and>
    reset_timeout (fst (duplicator_capture_tick e 1 c)) = real ((k + 1) mod 3) \<and>
    (list_ex is_create (snd (duplicator_capture_tick e 1 c)) \<longleftrightarrow> (k + 1) mod 3 = 0)"
  proof cases
    case 1
    then have "reset_timeout c = 0" using assms(2) by simp
    then show ?thesis using step 1 assms(1) by simp
  next
    case 2
    then have "reset_timeout c = 1" using assms(2) by simp
    then show ?thesis using step 2 assms(1) by simp
  next
    case 3
    then have "reset_timeout c = 2" using assms(2) by simp
    then show ?thesis using step 3 assms(1) by simp
  qed
  then show "duplicator (fst (duplicator_capture_tick e 1 c)) = None"
    and "source (fst (duplicator_capture_tick e 1 c)) = source c"
    and "monitor (fst (duplicator_capture_tick e 1 c)) = monitor c"
    and "reset_timeout (fst (duplicator_capture_tick e 1 c)) = real ((k + 1) mod 3)"
    and "list_ex is_create (snd (duplicator_capture_tick e 1 c)) \<longleftrightarrow> (k + 1) mod 3 = 0"
    by simp_all
qed

text \<open>The same along a run, by induction on the list of ticks.\<close>

lemma run_ticks_fail:
  assumes "duplicator c = None"
    and "reset_timeout c = real k"
    and "k < 3"
    and "\<forall>e\<in>set es. obs_source_showing e (source c) \<and>
                    gs_duplicator_create e (monitor c) = None"
    and "i < length es"
  shows "duplicator (fst (run_ticks (map (\<lambda>e. (e, 1)) es) c ! i)) = None \<and>
         reset_timeout (fst (run_ticks (map (\<lambda>e. (e, 1)) es) c ! i)) =
           real ((k + i + 1) mod 3) \<and>
         (list_ex is_create (snd (run_ticks (map (\<lambda>e. (e, 1)) es) c ! i)) \<longleftrightarrow>
           (k + i + 1) mod 3 = 0)"
  using assms
proof (induction es arbitrary: c k i)
  case Nil
  then show ?case by simp
next
  case (Cons e es)
  have sh: "obs_source_showing e (source c)"
    and cr: "gs_duplicator_create e (monitor c) = None"
    using Cons.prems(4) by simp_all
  note step = tick_unbound_step [OF Cons.prems(1,2,3) sh cr]
  show ?case
  proof (cases i)
    case 0
    then show ?thesis using step by (simp add: Let_def)
  next
    case (Suc j)
    have es': "\<forall>e'\<in>set es.
                 obs_source_showing e' (source (fst (duplicator_capture_tick e 1 c))) \<and>
                 gs_duplicator_create e' (monitor (fst (duplicator_capture_tick e 1 c))) = None"
      using Cons.prems(4) step(2,3) by simp
    have j: "j < length es" using Cons.prems(5) Suc by simp
    have k': "(k + 1) mod 3 < 3" by simp
    have "((k + 1) mod 3 + (j + 1)) mod 3 = ((k + 1) + (j + 1)) mod 3"
      by (rule mod_add_left_eq)
    then have m: "((k + 1) mod 3 + j + 1) mod 3 = (k + Suc j + 1) mod 3"
      by (simp only: add.assoc add_Suc_right add_Suc One_nat_def add_0_right add_0)
    from Cons.IH [OF step(1) step(4) k' es' j] m Suc show ?thesis
      by (simp add: Let_def)
  qed
qed

text \<open>Any tick that tries a creation ends with a retry time of 0.\<close>

lemma attempt_resets:
  "list_ex is_create (snd (duplicator_capture_tick e seconds c)) \<Longrightarrow>
   reset_timeout (fst (duplicator_capture_tick e seconds c)) = 0"
  by (auto simp: duplicator_capture_tick_def tick_retry_def tick_frame_def
      reset_capture_data_def Let_def split: if_splits option.splits prod.splits)

text \<open>
  C2. Take a session without a duplicator and with a retry time of 0, and any run of
  showing ticks with a frame time of 1.0 in which the creation of the duplicator fails
  whenever it is tried. Then no creation is tried in the first and the second tick; a
  tick tries it exactly when it is the third since the last attempt (the 3rd, 6th, ...
  of the run); and every tick that tries it leaves a retry time of 0. The last part
  holds for every tick of any session, also when the creation succeeds.
\<close>

theorem retry_gate:
  assumes "duplicator c = None"
    and "reset_timeout c = 0"
    and "\<forall>e\<in>set es. obs_source_showing e (source c) \<and>
                    gs_duplicator_create e (monitor c) = None"
  shows "(\<forall>i<length es.
            (i < 2 \<longrightarrow> \<not> list_ex is_create (snd (run_ticks (map (\<lambda>e. (e, 1)) es) c ! i))) \<and>
            (list_ex is_create (snd (run_ticks (map (\<lambda>e. (e, 1)) es) c ! i)) \<longleftrightarrow>
               (i + 1) mod 3 = 0) \<and>
            (list_ex is_create (snd (run_ticks (map (\<lambda>e. (e, 1)) es) c ! i)) \<longrightarrow>
               reset_timeout (fst (run_ticks (map (\<lambda>e. (e, 1)) es) c ! i)) = 0) \<and>
            duplicator (fst (run_ticks (map (\<lambda>e. (e, 1)) es) c ! i)) = None) \<and>
         (list_ex is_create (snd (duplicator_capture_tick e' seconds c')) \<longrightarrow>
            reset_timeout (fst (duplicator_capture_tick e' seconds c')) = 0)"
proof (intro conjI allI impI)
  fix i
  assume i: "i < length es"
  have r0: "reset_timeout c = real 0" using assms(2) by simp
  note run = run_ticks_fail [OF assms(1) r0 _ assms(3) i, simplified]
  show "duplicator (fst (run_ticks (map (\<lambda>e. (e, 1)) es) c ! i)) = None"
    using run by simp
  show "list_ex is_create (snd (run_ticks (map (\<lambda>e. (e, 1)) es) c ! i)) \<longleftrightarrow>
          (i + 1) mod 3 = 0"
    using run by simp
  {
    assume "list_ex is_create (snd (run_ticks (map (\<lambda>e. (e, 1)) es) c ! i))"
    then show "reset_timeout (fst (run_ticks (map (\<lambda>e. (e, 1)) es) c ! i)) = 0"
      using run by simp
  }
  {
    assume "i < 2"
    then have "(i + 1) mod 3 \<noteq> 0" by auto
    then show "\<not> list_ex is_create (snd (run_ticks (map (\<lambda>e. (e, 1)) es) c ! i))"
      using run by simp
  }
next
  assume "list_ex is_create (snd (duplicator_capture_tick e' seconds c'))"
  then show "reset_timeout (fst (duplicator_capture_tick e' seconds c')) = 0"
    by (rule attempt_resets)
qed

theorem retry_gate_witness:
  "duplicator capture_unbound = None \<and>
   reset_timeout capture_unbound = 0 \<and>
   obs_source_showing env_absent (source capture_unbound) \<and>
   gs_duplicator_create env_absent (monitor capture_unbound) = None \<and>
   \<not> list_ex is_create
       (snd (run_ticks (map (\<lambda>e. (e, 1)) [env_absent, env_absent, env_absent])
          capture_unbound ! 1)) \<and>
   list_ex is_create
       (snd (run_ticks (map (\<lambda>e. (e, 1)) [env_absent, env_absent, env_absent])
          capture_unbound ! 2)) \<and>
   reset_timeout
       (fst (run_ticks (map (\<lambda>e. (e, 1)) [env_absent, env_absent, env_absent])
          capture_unbound ! 2)) = 0"
proof -
  have h1: "duplicator capture_unbound = None"
    by (simp add: capture_unbound_eq)
  have h2: "reset_timeout capture_unbound = 0"
    by (simp add: capture_unbound_eq)
  have h3: "\<forall>e\<in>set [env_absent, env_absent, env_absent].
      obs_source_showing e (source capture_unbound) \<and>
      gs_duplicator_create e (monitor capture_unbound) = None"
    by (simp add: env_absent_def env_live_def)
  note gate = retry_gate [OF h1 h2 h3, THEN conjunct1, rule_format]
  show ?thesis
    using h1 h2 h3 gate [of 1] gate [of 2] by simp
qed

section \<open>Sessions without a duplicator have no cached size\<close>

lemma update_settings_unsized:
  "width (fst (update_settings e settings c)) = 0 \<and>
   height (fst (update_settings e settings c)) = 0"
  by (simp add: update_settings_def Let_def)

lemma tick_keeps_unbound_unsized:
  assumes "duplicator c = None \<longrightarrow> width c = 0 \<and> height c = 0"
    and "duplicator (fst (duplicator_capture_tick e seconds c)) = None"
  shows "width (fst (duplicator_capture_tick e seconds c)) = 0 \<and>
         height (fst (duplicator_capture_tick e seconds c)) = 0"
  using assms
  by (auto simp: duplicator_capture_tick_def tick_retry_def tick_frame_def
      reset_capture_data_def Let_def split: if_splits option.splits prod.splits)

lemma render_keeps_state: "fst (duplicator_capture_render e c) = c"
  by (simp add: duplicator_capture_render_def Let_def split: option.splits)

lemma reachable_unbound_unsized:
  "reachable c \<Longrightarrow> duplicator c = None \<longrightarrow> width c = 0 \<and> height c = 0"
proof (induction rule: reachable.induct)
  case (created e settings src)
  show ?case
    using update_settings_unsized by (simp add: duplicator_capture_create_def)
next
  case (updated c e settings)
  show ?case
    using update_settings_unsized by (simp add: duplicator_capture_update_def)
next
  case (ticked c e seconds)
  show ?case
  proof
    assume "duplicator (fst (duplicator_capture_tick e seconds c)) = None"
    with ticked.IH show "width (fst (duplicator_capture_tick e seconds c)) = 0 \<and>
        height (fst (duplicator_capture_tick e seconds c)) = 0"
      by (rule tick_keeps_unbound_unsized)
  qed
next
  case (rendered c e)
  then show ?case by (simp add: render_keeps_state)
qed

text \<open>
  C7. In every session that can be reached from creation by reconfiguring, ticking and
  rendering, in any order and with any answers of the host, a null duplicator implies a
  cached width and height of 0.
\<close>

theorem unbound_implies_unsized:
  assumes "reachable c"
    and "duplicator c = None"
  shows "width c = 0 \<and> height c = 0"
  using reachable_unbound_unsized [OF assms(1)] assms(2) by simp

theorem unbound_implies_unsized_witness:
  "reachable (fst (duplicator_capture_tick env_lost 1 capture_sized)) \<and>
   duplicator (fst (duplicator_capture_tick env_lost 1 capture_sized)) = None \<and>
   width (fst (duplicator_capture_tick env_lost 1 capture_sized)) = 0 \<and>
   height (fst (duplicator_capture_tick env_lost 1 capture_sized)) = 0"
proof -
  have "reachable capture_unsized"
    unfolding capture_unsized_def by (rule reachable.created)
  then have "reachable capture_sized"
    unfolding capture_sized_def by (rule reachable.ticked)
  then have h1: "reachable (fst (duplicator_capture_tick env_lost 1 capture_sized))"
    by (rule reachable.ticked)
  have h2: "duplicator (fst (duplicator_capture_tick env_lost 1 capture_sized)) = None"
    by (simp add: capture_sized_eq duplicator_capture_tick_def tick_retry_def
        tick_frame_def env_lost_def env_live_def Let_def)
  show ?thesis
    using h1 h2 unbound_implies_unsized [OF h1 h2] by simp
qed

section \<open>The render transform\<close>

text \<open>The loop over the passes issues the loop test and the body once per pass, then the
  test that ends it.\<close>

lemma render_loop_concat:
  "render_loop n effect body =
     concat (replicate n (Gs_effect_loop effect ''Draw'' # body)) @
     [Gs_effect_loop effect ''Draw'']"
  by (induction n) simp_all

text \<open>
  What the render call issues for a session that holds a duplicator with a texture: the
  texture and effect queries, then the loop over the passes, each with the same body,
  run with the cached rotation.
\<close>

lemma render_bound:
  assumes "duplicator c = Some d"
    and "gs_duplicator_get_texture e (Some d) = Some texture"
  shows "duplicator_capture_render e c =
           (c, [Gs_duplicator_get_texture (Some d), Obs_get_default_effect] @
               concat (replicate (gs_effect_loop e (obs_get_default_effect e) ''Draw'')
                 (Gs_effect_loop (obs_get_default_effect e) ''Draw'' #
                  render_pass c texture (rot c))) @
               [Gs_effect_loop (obs_get_default_effect e) ''Draw''])"
  using assms by (simp add: duplicator_capture_render_def render_loop_concat Let_def)

text \<open>
  C6 does not hold as it is stated for every cached width and height. The translation is
  passed as a \<open>float\<close>, and a dimension above \<open>2 ^ 24\<close> need not be one: for a height of
  16777219 cached with a rotation of 90, the render call translates by 16777220, not by
  the height.
\<close>

theorem render_translation_rounds:
  "capture_huge = fst (duplicator_capture_tick env_huge 1 capture_unsized) \<and>
   duplicator capture_huge = Some 1 \<and>
   rot capture_huge = 90 \<and>
   unat (height capture_huge) = 16777219 \<and>
   duplicator_capture_render env_huge capture_huge =
     (capture_huge,
      [Gs_duplicator_get_texture (Some 1), Obs_get_default_effect, Gs_effect_loop 3 ''Draw'',
       Gs_enable_blending False, Gs_enable_color True True True False,
       Gs_matrix_push, Gs_matrix_translate3f (Some 16777220) (Some 0) 0,
       Gs_matrix_rotaa4f 0 0 1 (RAD 90),
       Obs_source_draw 2 0 0 0 0 False, Gs_matrix_pop,
       Gs_enable_blending True, Gs_enable_color True True True True,
       Cursor_draw 0 0 1 1 16777219 1080,
       Gs_effect_loop 3 ''Draw'']) \<and>
   Gs_matrix_translate3f (Some (real (unat (height capture_huge)))) (Some 0) 0
     \<notin> set (snd (duplicator_capture_render env_huge capture_huge))"
proof -
  have conv: "float_of_uint32 16777219 = 16777220"
    by (simp add: float_of_uint32_def round_binary32_def float_exponent.simps)
  have r: "duplicator_capture_render env_huge capture_huge =
     (capture_huge,
      [Gs_duplicator_get_texture (Some 1), Obs_get_default_effect, Gs_effect_loop 3 ''Draw'',
       Gs_enable_blending False, Gs_enable_color True True True False,
       Gs_matrix_push, Gs_matrix_translate3f (Some 16777220) (Some 0) 0,
       Gs_matrix_rotaa4f 0 0 1 (RAD 90),
       Obs_source_draw 2 0 0 0 0 False, Gs_matrix_pop,
       Gs_enable_blending True, Gs_enable_color True True True True,
       Cursor_draw 0 0 1 1 16777219 1080,
       Gs_effect_loop 3 ''Draw''])"
    by (simp add: capture_huge_eq duplicator_capture_render_def render_pass_def
        render_transform_def draw_cursor_def signed_modulo_int_def float_of_int_exact
        conv env_huge_def env_live_def Let_def)
  have h: "unat (height capture_huge) = 16777219"
    by (simp add: capture_huge_eq)
  have d: "capture_huge = fst (duplicator_capture_tick env_huge 1 capture_unsized)"
    by (simp add: capture_huge_def)
  have b: "duplicator capture_huge = Some 1"
    and q: "rot capture_huge = 90"
    by (simp_all add: capture_huge_eq)
  have n: "Gs_matrix_translate3f (Some (real (unat (height capture_huge)))) (Some 0) 0
     \<notin> set (snd (duplicator_capture_render env_huge capture_huge))"
    unfolding r h by simp
  from d b q h r n show ?thesis
    by (intro conjI)
qed

text \<open>The calls of the render call, by cached rotation.\<close>

lemma render_rot_0:
  assumes "duplicator c = Some d"
    and "gs_duplicator_get_texture e (Some d) = Some texture"
    and "rot c = 0"
  shows "snd (duplicator_capture_render e c) =
     [Gs_duplicator_get_texture (Some d), Obs_get_default_effect] @
     concat (replicate (gs_effect_loop e (obs_get_default_effect e) ''Draw'')
       ([Gs_effect_loop (obs_get_default_effect e) ''Draw'',
         Gs_enable_blending False, Gs_enable_color True True True False,
         Obs_source_draw texture 0 0 0 0 False,
         Gs_enable_blending True, Gs_enable_color True True True True] @
        (if capture_cursor c
         then [Cursor_draw (- x c) (- y c) 1 1 (width c) (height c)] else []))) @
     [Gs_effect_loop (obs_get_default_effect e) ''Draw'']"
  using assms(3)
  by (simp add: render_bound [OF assms(1,2)] render_pass_def render_transform_def
      draw_cursor_def)

lemma render_rot_90:
  assumes "duplicator c = Some d"
    and "gs_duplicator_get_texture e (Some d) = Some texture"
    and "rot c = 90"
  shows "snd (duplicator_capture_render e c) =
     [Gs_duplicator_get_texture (Some d), Obs_get_default_effect] @
     concat (replicate (gs_effect_loop e (obs_get_default_effect e) ''Draw'')
       ([Gs_effect_loop (obs_get_default_effect e) ''Draw'',
         Gs_enable_blending False, Gs_enable_color True True True False,
         Gs_matrix_push,
         Gs_matrix_translate3f (Some (float_of_uint32 (height c))) (Some 0) 0,
         Gs_matrix_rotaa4f 0 0 1 (RAD 90),
         Obs_source_draw texture 0 0 0 0 False,
         Gs_matrix_pop,
         Gs_enable_blending True, Gs_enable_color True True True True] @
        (if capture_cursor c
         then [Cursor_draw (- x c) (- y c) 1 1 (height c) (width c)] else []))) @
     [Gs_effect_loop (obs_get_default_effect e) ''Draw'']"
  using assms(3)
  by (simp add: render_bound [OF assms(1,2)] render_pass_def render_transform_def
      draw_cursor_def signed_modulo_int_def float_of_int_exact)

lemma render_rot_180:
  assumes "duplicator c = Some d"
    and "gs_duplicator_get_texture e (Some d) = Some texture"
    and "rot c = 180"
  shows "snd (duplicator_capture_render e c) =
     [Gs_duplicator_get_texture (Some d), Obs_get_default_effect] @
     concat (replicate (gs_effect_loop e (obs_get_default_effect e) ''Draw'')
       ([Gs_effect_loop (obs_get_default_effect e) ''Draw'',
         Gs_enable_blending False, Gs_enable_color True True True False,
         Gs_matrix_push,
         Gs_matrix_translate3f (Some (float_of_uint32 (width c)))
           (Some (float_of_uint32 (height c))) 0,
         Gs_matrix_rotaa4f 0 0 1 (RAD 180),
         Obs_source_draw texture 0 0 0 0 False,
         Gs_matrix_pop,
         Gs_enable_blending True, Gs_enable_color True True True True] @
        (if capture_cursor c
         then [Cursor_draw (- x c) (- y c) 1 1 (width c) (height c)] else []))) @
     [Gs_effect_loop (obs_get_default_effect e) ''Draw'']"
  using assms(3)
  by (simp add: render_bound [OF assms(1,2)] render_pass_def render_transform_def
      draw_cursor_def signed_modulo_int_def float_of_int_exact)

lemma render_rot_270:
  assumes "duplicator c = Some d"
    and "gs_duplicator_get_texture e (Some d) = Some texture"
    and "rot c = 270"
  shows "snd (duplicator_capture_render e c) =
     [Gs_duplicator_get_texture (Some d), Obs_get_default_effect] @
     concat (replicate (gs_effect_loop e (obs_get_default_effect e) ''Draw'')
       ([Gs_effect_loop (obs_get_default_effect e) ''Draw'',
         Gs_enable_blending False, Gs_enable_color True True True False,
         Gs_matrix_push,
         Gs_matrix_translate3f (Some 0) (Some (float_of_uint32 (width c))) 0,
         Gs_matrix_rotaa4f 0 0 1 (RAD 270),
         Obs_source_draw texture 0 0 0 0 False,
         Gs_matrix_pop,
         Gs_enable_blending True, Gs_enable_color True True True True] @
        (if capture_cursor c
         then [Cursor_draw (- x c) (- y c) 1 1 (height c) (width c)] else []))) @
     [Gs_effect_loop (obs_get_default_effect e) ''Draw'']"
  using assms(3)
  by (simp add: render_bound [OF assms(1,2)] render_pass_def render_transform_def
      draw_cursor_def signed_modulo_int_def float_of_int_exact)

text \<open>
  C6, as the source has it. Take a session that holds a duplicator whose texture the
  host returns, with any cached width and height. The render call leaves the session as
  it is and issues, in every pass of the effect and before the draw of the texture: with
  a cached rotation of 0, no matrix call; with 90, a push, the translation by
  \<open>((float)height, 0, 0)\<close> and the rotation by 90 degrees about the axis (0, 0, 1); with
  180, the same with \<open>((float)width, (float)height, 0)\<close> and 180 degrees; with 270, with
  \<open>(0, (float)width, 0)\<close> and 270 degrees. After the draw comes the pop, if there was a
  push. The conversion \<open>(float)\<close> returns the width or height itself when that is at most
  \<open>2 ^ 24\<close>, and the binary32 value nearest to it otherwise.
\<close>

theorem render_transform_applied:
  assumes "duplicator c = Some d"
    and "gs_duplicator_get_texture e (Some d) = Some texture"
  shows "fst (duplicator_capture_render e c) = c \<and>
   (rot c = 0 \<longrightarrow>
      snd (duplicator_capture_render e c) =
        [Gs_duplicator_get_texture (Some d), Obs_get_default_effect] @
        concat (replicate (gs_effect_loop e (obs_get_default_effect e) ''Draw'')
          ([Gs_effect_loop (obs_get_default_effect e) ''Draw'',
            Gs_enable_blending False, Gs_enable_color True True True False,
            Obs_source_draw texture 0 0 0 0 False,
            Gs_enable_blending True, Gs_enable_color True True True True] @
           (if capture_cursor c
            then [Cursor_draw (- x c) (- y c) 1 1 (width c) (height c)] else []))) @
        [Gs_effect_loop (obs_get_default_effect e) ''Draw'']) \<and>
   (rot c = 90 \<longrightarrow>
      snd (duplicator_capture_render e c) =
        [Gs_duplicator_get_texture (Some d), Obs_get_default_effect] @
        concat (replicate (gs_effect_loop e (obs_get_default_effect e) ''Draw'')
          ([Gs_effect_loop (obs_get_default_effect e) ''Draw'',
            Gs_enable_blending False, Gs_enable_color True True True False,
            Gs_matrix_push,
            Gs_matrix_translate3f (Some (float_of_uint32 (height c))) (Some 0) 0,
            Gs_matrix_rotaa4f 0 0 1 (RAD 90),
            Obs_source_draw texture 0 0 0 0 False,
            Gs_matrix_pop,
            Gs_enable_blending True, Gs_enable_color True True True True] @
           (if capture_cursor c
            then [Cursor_draw (- x c) (- y c) 1 1 (height c) (width c)] else []))) @
        [Gs_effect_loop (obs_get_default_effect e) ''Draw'']) \<and>
   (rot c = 180 \<longrightarrow>
      snd (duplicator_capture_render e c) =
        [Gs_duplicator_get_texture (Some d), Obs_get_default_effect] @
        concat (replicate (gs_effect_loop e (obs_get_default_effect e) ''Draw'')
          ([Gs_effect_loop (obs_get_default_effect e) ''Draw'',
            Gs_enable_blending False, Gs_enable_color True True True False,
            Gs_matrix_push,
            Gs_matrix_translate3f (Some (float_of_uint32 (width c)))
              (Some (float_of_uint32 (height c))) 0,
            Gs_matrix_rotaa4f 0 0 1 (RAD 180),
            Obs_source_draw texture 0 0 0 0 False,
            Gs_matrix_pop,
            Gs_enable_blending True, Gs_enable_color True True True True] @
           (if capture_cursor c
            then [Cursor_draw (- x c) (- y c) 1 1 (width c) (height c)] else []))) @
        [Gs_effect_loop (obs_get_default_effect e) ''Draw'']) \<and>
   (rot c = 270 \<longrightarrow>
      snd (duplicator_capture_render e c) =
        [Gs_duplicator_get_texture (Some d), Obs_get_default_effect] @
        concat (replicate (gs_effect_loop e (obs_get_default_effect e) ''Draw'')
          ([Gs_effect_loop (obs_get_default_effect e) ''Draw'',
            Gs_enable_blending False, Gs_enable_color True True True False,
            Gs_matrix_push,
            Gs_matrix_translate3f (Some 0) (Some (float_of_uint32 (width c))) 0,
            Gs_matrix_rotaa4f 0 0 1 (RAD 270),
            Obs_source_draw texture 0 0 0 0 False,
            Gs_matrix_pop,
            Gs_enable_blending True, Gs_enable_color True True True True] @
           (if capture_cursor c
            then [Cursor_draw (- x c) (- y c) 1 1 (height c) (width c)] else []))) @
        [Gs_effect_loop (obs_get_default_effect e) ''Draw'']) \<and>
   (unat (width c) \<le> 2 ^ 24 \<longrightarrow> float_of_uint32 (width c) = real (unat (width c))) \<and>
   (unat (height c) \<le> 2 ^ 24 \<longrightarrow> float_of_uint32 (height c) = real (unat (height c)))"
proof (intro conjI impI)
  show "fst (duplicator_capture_render e c) = c"
    by (rule render_keeps_state)
next
  assume "rot c = 0"
  with assms show "snd (duplicator_capture_render e c) =
        [Gs_duplicator_get_texture (Some d), Obs_get_default_effect] @
        concat (replicate (gs_effect_loop e (obs_get_default_effect e) ''Draw'')
          ([Gs_effect_loop (obs_get_default_effect e) ''Draw'',
            Gs_enable_blending False, Gs_enable_color True True True False,
            Obs_source_draw texture 0 0 0 0 False,
            Gs_enable_blending True, Gs_enable_color True True True True] @
           (if capture_cursor c
            then [Cursor_draw (- x c) (- y c) 1 1 (width c) (height c)] else []))) @
        [Gs_effect_loop (obs_get_default_effect e) ''Draw'']"
    by (rule render_rot_0)
next
  assume "rot c = 90"
  with assms show "snd (duplicator_capture_render e c) =
        [Gs_duplicator_get_texture (Some d), Obs_get_default_effect] @
        concat (replicate (gs_effect_loop e (obs_get_default_effect e) ''Draw'')
          ([Gs_effect_loop (obs_get_default_effect e) ''Draw'',
            Gs_enable_blending False, Gs_enable_color True True True False,
            Gs_matrix_push,
            Gs_matrix_translate3f (Some (float_of_uint32 (height c))) (Some 0) 0,
            Gs_matrix_rotaa4f 0 0 1 (RAD 90),
            Obs_source_draw texture 0 0 0 0 False,
            Gs_matrix_pop,
            Gs_enable_blending True, Gs_enable_color True True True True] @
           (if capture_cursor c
            then [Cursor_draw (- x c) (- y c) 1 1 (height c) (width c)] else []))) @
        [Gs_effect_loop (obs_get_default_effect e) ''Draw'']"
    by (rule render_rot_90)
next
  assume "rot c = 180"
  with assms show "snd (duplicator_capture_render e c) =
        [Gs_duplicator_get_texture (Some d), Obs_get_default_effect] @
        concat (replicate (gs_effect_loop e (obs_get_default_effect e) ''Draw'')
          ([Gs_effect_loop (obs_get_default_effect e) ''Draw'',
            Gs_enable_blending False, Gs_enable_color True True True False,
            Gs_matrix_push,
            Gs_matrix_translate3f (Some (float_of_uint32 (width c)))
              (Some (float_of_uint32 (height c))) 0,
            Gs_matrix_rotaa4f 0 0 1 (RAD 180),
            Obs_source_draw texture 0 0 0 0 False,
            Gs_matrix_pop,
            Gs_enable_blending True, Gs_enable_color True True True True] @
           (if capture_cursor c
            then [Cursor_draw (- x c) (- y c) 1 1 (width c) (height c)] else []))) @
        [Gs_effect_loop (obs_get_default_effect e) ''Draw'']"
    by (rule render_rot_180)
next
  assume "rot c = 270"
  with assms show "snd (duplicator_capture_render e c) =
        [Gs_duplicator_get_texture (Some d), Obs_get_default_effect] @
        concat (replicate (gs_effect_loop e (obs_get_default_effect e) ''Draw'')
          ([Gs_effect_loop (obs_get_default_effect e) ''Draw'',
            Gs_enable_blending False, Gs_enable_color True True True False,
            Gs_matrix_push,
            Gs_matrix_translate3f (Some 0) (Some (float_of_uint32 (width c))) 0,
            Gs_matrix_rotaa4f 0 0 1 (RAD 270),
            Obs_source_draw texture 0 0 0 0 False,
            Gs_matrix_pop,
            Gs_enable_blending True, Gs_enable_color True True True True] @
           (if capture_cursor c
            then [Cursor_draw (- x c) (- y c) 1 1 (height c) (width c)] else []))) @
        [Gs_effect_loop (obs_get_default_effect e) ''Draw'']"
    by (rule render_rot_270)
next
  assume "unat (width c) \<le> 2 ^ 24"
  then show "float_of_uint32 (width c) = real (unat (width c))"
    by (rule float_of_uint32_exact)
next
  assume "unat (height c) \<le> 2 ^ 24"
  then show "float_of_uint32 (height c) = real (unat (height c))"
    by (rule float_of_uint32_exact)
qed

theorem render_transform_applied_witness:
  "duplicator capture_sized = Some 1 \<and>
   duplicator capture_portrait = Some 1 \<and>
   gs_duplicator_get_texture env_live (Some 1) = Some 2 \<and>
   rot capture_sized = 0 \<and>
   duplicator_capture_render env_live capture_sized =
     (capture_sized,
      [Gs_duplicator_get_texture (Some 1), Obs_get_default_effect, Gs_effect_loop 3 ''Draw'',
       Gs_enable_blending False, Gs_enable_color True True True False,
       Obs_source_draw 2 0 0 0 0 False,
       Gs_enable_blending True, Gs_enable_color True True True True,
       Cursor_draw 0 0 1 1 1920 1080,
       Gs_effect_loop 3 ''Draw'']) \<and>
   rot capture_portrait = 90 \<and>
   duplicator_capture_render env_live capture_portrait =
     (capture_portrait,
      [Gs_duplicator_get_texture (Some 1), Obs_get_default_effect, Gs_effect_loop 3 ''Draw'',
       Gs_enable_blending False, Gs_enable_color True True True False,
       Gs_matrix_push, Gs_matrix_translate3f (Some 1920) (Some 0) 0,
       Gs_matrix_rotaa4f 0 0 1 (RAD 90),
       Obs_source_draw 2 0 0 0 0 False, Gs_matrix_pop,
       Gs_enable_blending True, Gs_enable_color True True True True,
       Cursor_draw 0 0 1 1 1920 1080,
       Gs_effect_loop 3 ''Draw'']) \<and>
   rot (capture_sized\<lparr>rot := 180\<rparr>) = 180 \<and>
   duplicator_capture_render env_live (capture_sized\<lparr>rot := 180\<rparr>) =
     (capture_sized\<lparr>rot := 180\<rparr>,
      [Gs_duplicator_get_texture (Some 1), Obs_get_default_effect, Gs_effect_loop 3 ''Draw'',
       Gs_enable_blending False, Gs_enable_color True True True False,
       Gs_matrix_push, Gs_matrix_translate3f (Some 1920) (Some 1080) 0,
       Gs_matrix_rotaa4f 0 0 1 (RAD 180),
       Obs_source_draw 2 0 0 0 0 False, Gs_matrix_pop,
       Gs_enable_blending True, Gs_enable_color True True True True,
       Cursor_draw 0 0 1 1 1920 1080,
       Gs_effect_loop 3 ''Draw'']) \<and>
   rot (capture_portrait\<lparr>rot := 270\<rparr>) = 270 \<and>
   duplicator_capture_render env_live (capture_portrait\<lparr>rot := 270\<rparr>) =
     (capture_portrait\<lparr>rot := 270\<rparr>,
      [Gs_duplicator_get_texture (Some 1), Obs_get_default_effect, Gs_effect_loop 3 ''Draw'',
       Gs_enable_blending False, Gs_enable_color True True True False,
       Gs_matrix_push, Gs_matrix_translate3f (Some 0) (Some 1080) 0,
       Gs_matrix_rotaa4f 0 0 1 (RAD 270),
       Obs_source_draw 2 0 0 0 0 False, Gs_matrix_pop,
       Gs_enable_blending True, Gs_enable_color True True True True,
       Cursor_draw 0 0 1 1 1920 1080,
       Gs_effect_loop 3 ''Draw''])"
proof -
  have ds: "duplicator capture_sized = Some 1"
    and dp: "duplicator capture_portrait = Some 1"
    and ds': "duplicator (capture_sized\<lparr>rot := 180\<rparr>) = Some 1"
    and dp': "duplicator (capture_portrait\<lparr>rot := 270\<rparr>) = Some 1"
    by (simp_all add: capture_sized_eq capture_portrait_eq)
  have tx: "gs_duplicator_get_texture env_live (Some 1) = Some 2"
    by (simp add: env_live_def)
  have h0: "rot capture_sized = 0"
    and h90: "rot capture_portrait = 90"
    and h180: "rot (capture_sized\<lparr>rot := 180\<rparr>) = 180"
    and h270: "rot (capture_portrait\<lparr>rot := 270\<rparr>) = 270"
    by (simp_all add: capture_sized_eq capture_portrait_eq)
  note a0 = render_transform_applied [OF ds tx]
  note a90 = render_transform_applied [OF dp tx]
  note a180 = render_transform_applied [OF ds' tx]
  note a270 = render_transform_applied [OF dp' tx]
  have r0: "duplicator_capture_render env_live capture_sized =
     (capture_sized,
      [Gs_duplicator_get_texture (Some 1), Obs_get_default_effect, Gs_effect_loop 3 ''Draw'',
       Gs_enable_blending False, Gs_enable_color True True True False,
       Obs_source_draw 2 0 0 0 0 False,
       Gs_enable_blending True, Gs_enable_color True True True True,
       Cursor_draw 0 0 1 1 1920 1080,
       Gs_effect_loop 3 ''Draw''])"
    using a0 [THEN conjunct1] a0 [THEN conjunct2, THEN conjunct1, rule_format, OF h0]
    by (simp add: prod_eq_iff capture_sized_eq env_live_def)
  have r90: "duplicator_capture_render env_live capture_portrait =
     (capture_portrait,
      [Gs_duplicator_get_texture (Some 1), Obs_get_default_effect, Gs_effect_loop 3 ''Draw'',
       Gs_enable_blending False, Gs_enable_color True True True False,
       Gs_matrix_push, Gs_matrix_translate3f (Some 1920) (Some 0) 0,
       Gs_matrix_rotaa4f 0 0 1 (RAD 90),
       Obs_source_draw 2 0 0 0 0 False, Gs_matrix_pop,
       Gs_enable_blending True, Gs_enable_color True True True True,
       Cursor_draw 0 0 1 1 1920 1080,
       Gs_effect_loop 3 ''Draw''])"
    using a90 [THEN conjunct1]
      a90 [THEN conjunct2, THEN conjunct2, THEN conjunct1, rule_format, OF h90]
    by (simp add: prod_eq_iff capture_portrait_eq env_live_def float_of_uint32_exact)
  have r180: "duplicator_capture_render env_live (capture_sized\<lparr>rot := 180\<rparr>) =
     (capture_sized\<lparr>rot := 180\<rparr>,
      [Gs_duplicator_get_texture (Some 1), Obs_get_default_effect, Gs_effect_loop 3 ''Draw'',
       Gs_enable_blending False, Gs_enable_color True True True False,
       Gs_matrix_push, Gs_matrix_translate3f (Some 1920) (Some 1080) 0,
       Gs_matrix_rotaa4f 0 0 1 (RAD 180),
       Obs_source_draw 2 0 0 0 0 False, Gs_matrix_pop,
       Gs_enable_blending True, Gs_enable_color True True True True,
       Cursor_draw 0 0 1 1 1920 1080,
       Gs_effect_loop 3 ''Draw''])"
    using a180 [THEN conjunct1]
      a180 [THEN conjunct2, THEN conjunct2, THEN conjunct2, THEN conjunct1, rule_format,
        OF h180]
    by (simp add: prod_eq_iff capture_sized_eq env_live_def float_of_uint32_exact)
  have r270: "duplicator_capture_render env_live (capture_portrait\<lparr>rot := 270\<rparr>) =
     (capture_portrait\<lparr>rot := 270\<rparr>,
      [Gs_duplicator_get_texture (Some 1), Obs_get_default_effect, Gs_effect_loop 3 ''Draw'',
       Gs_enable_blending False, Gs_enable_color True True True False,
       Gs_matrix_push, Gs_matrix_translate3f (Some 0) (Some 1080) 0,
       Gs_matrix_rotaa4f 0 0 1 (RAD 270),
       Obs_source_draw 2 0 0 0 0 False, Gs_matrix_pop,
       Gs_enable_blending True, Gs_enable_color True True True True,
       Cursor_draw 0 0 1 1 1920 1080,
       Gs_effect_loop 3 ''Draw''])"
    using a270 [THEN conjunct1]
      a270 [THEN conjunct2, THEN conjunct2, THEN conjunct2, THEN conjunct2, THEN conjunct1,
        rule_format, OF h270]
    by (simp add: prod_eq_iff capture_portrait_eq env_live_def float_of_uint32_exact)
  show ?thesis
    using ds dp tx h0 h90 h180 h270 r0 r90 r180 r270 by (intro conjI)
qed

section \<open>A rotation that is not a multiple of 90\<close>

text \<open>
  C1. A cached rotation other than 0, 90, 180 and 270 is not drawn as rotation 0. The
  block guarded by \<open>rot != 0\<close> runs for it, the switch matches no label, and the
  translation is called with the two locals that were never assigned, followed by a
  rotation by that many degrees. Here the monitor information reports 45 degrees, the
  tick caches it, and the render call is run on the cached session.
\<close>

theorem render_rotation_45_translates_unassigned:
  "capture_tilted = fst (duplicator_capture_tick env_tilted 1
                      (fst (duplicator_capture_create env_live settings_default 7))) \<and>
   rot capture_tilted = 45 \<and>
   duplicator_capture_render env_tilted capture_tilted =
     (capture_tilted,
      [Gs_duplicator_get_texture (Some 1), Obs_get_default_effect, Gs_effect_loop 3 ''Draw'',
       Gs_enable_blending False, Gs_enable_color True True True False,
       Gs_matrix_push, Gs_matrix_translate3f None None 0,
       Gs_matrix_rotaa4f 0 0 1 (RAD 45),
       Obs_source_draw 2 0 0 0 0 False, Gs_matrix_pop,
       Gs_enable_blending True, Gs_enable_color True True True True,
       Cursor_draw 0 0 1 1 1080 1920,
       Gs_effect_loop 3 ''Draw''])"
proof (intro conjI)
  show "capture_tilted = fst (duplicator_capture_tick env_tilted 1
                      (fst (duplicator_capture_create env_live settings_default 7)))"
    by (simp add: capture_tilted_def capture_unsized_def)
  show "rot capture_tilted = 45"
    by (simp add: capture_tilted_eq)
  show "duplicator_capture_render env_tilted capture_tilted =
     (capture_tilted,
      [Gs_duplicator_get_texture (Some 1), Obs_get_default_effect, Gs_effect_loop 3 ''Draw'',
       Gs_enable_blending False, Gs_enable_color True True True False,
       Gs_matrix_push, Gs_matrix_translate3f None None 0,
       Gs_matrix_rotaa4f 0 0 1 (RAD 45),
       Obs_source_draw 2 0 0 0 0 False, Gs_matrix_pop,
       Gs_enable_blending True, Gs_enable_color True True True True,
       Cursor_draw 0 0 1 1 1080 1920,
       Gs_effect_loop 3 ''Draw''])"
    by (simp add: capture_tilted_eq duplicator_capture_render_def render_pass_def
        render_transform_def draw_cursor_def signed_modulo_int_def float_of_int_exact
        env_tilted_def env_live_def Let_def)
qed

section \<open>Sampling the geometry\<close>

text \<open>
  C9 does not hold as it is stated. A showing tick of a session that holds a duplicator
  and has no cached width, with a frame update that succeeds, makes one monitor query
  but does not always leave a cached width: here the duplicator
  has no texture yet and the width reported for it is 0, so the session still has a
  duplicator and a width of 0 after the tick.
\<close>

theorem tick_first_frame_without_texture:
  "duplicator capture_unsized = Some 1 \<and>
   width capture_unsized = 0 \<and>
   obs_source_showing env_no_frame (source capture_unsized) \<and>
   gs_duplicator_update_frame env_no_frame 1 \<and>
   length (filter is_monitor_query
     (snd (duplicator_capture_tick env_no_frame 1 capture_unsized))) = 1 \<and>
   \<not> (duplicator (fst (duplicator_capture_tick env_no_frame 1 capture_unsized)) \<noteq> None \<and>
      width (fst (duplicator_capture_tick env_no_frame 1 capture_unsized)) \<noteq> 0)"
  by (simp add: capture_unsized_eq duplicator_capture_tick_def tick_retry_def
      tick_frame_def reset_capture_data_def env_no_frame_def env_live_def Let_def)

text \<open>
  C9, as the source has it. A showing tick of a session that holds a duplicator, with a
  frame update that succeeds: if the cached width is 0, the tick asks for the texture
  and makes exactly one monitor query, and stores the width and height of the texture
  and the origin and rotation of the monitor information; after it the session has a
  cached width exactly when the width reported for the texture is not 0, and otherwise
  is as before the tick. If the cached width is not 0, the tick makes no monitor query
  and no texture query, and leaves every field but the cursor data as it was.
\<close>

theorem tick_geometry_query:
  assumes "duplicator c = Some d"
    and "obs_source_showing e (source c)"
    and "gs_duplicator_update_frame e d"
  shows "(width c = 0 \<longrightarrow>
            length (filter is_monitor_query (snd (duplicator_capture_tick e seconds c))) = 1 \<and>
            snd (duplicator_capture_tick e seconds c) =
              [Obs_source_showing (source c), Obs_enter_graphics] @
              (if capture_cursor c then [Cursor_capture] else []) @
              [Gs_duplicator_update_frame d, Gs_duplicator_get_texture (Some d),
               Gs_get_duplicator_monitor_info (monitor c),
               Gs_texture_get_width (gs_duplicator_get_texture e (Some d)),
               Gs_texture_get_height (gs_duplicator_get_texture e (Some d)),
               Obs_leave_graphics] \<and>
            fst (duplicator_capture_tick e seconds c) =
              c\<lparr>cursor_data := (if capture_cursor c then cursor_capture e (cursor_data c)
                                else cursor_data c),
                width := gs_texture_get_width e (gs_duplicator_get_texture e (Some d)),
                height := gs_texture_get_height e (gs_duplicator_get_texture e (Some d)),
                x := info_x (snd (gs_get_duplicator_monitor_info e (monitor c)
                                    zero_monitor_info)),
                y := info_y (snd (gs_get_duplicator_monitor_info e (monitor c)
                                    zero_monitor_info)),
                rot := rotation_degrees (snd (gs_get_duplicator_monitor_info e (monitor c)
                                                zero_monitor_info))\<rparr> \<and>
            ((duplicator (fst (duplicator_capture_tick e seconds c)) \<noteq> None \<and>
              width (fst (duplicator_capture_tick e seconds c)) \<noteq> 0) \<longleftrightarrow>
             gs_texture_get_width e (gs_duplicator_get_texture e (Some d)) \<noteq> 0)) \<and>
         (width c \<noteq> 0 \<longrightarrow>
            filter is_monitor_query (snd (duplicator_capture_tick e seconds c)) = [] \<and>
            snd (duplicator_capture_tick e seconds c) =
              [Obs_source_showing (source c), Obs_enter_graphics] @
              (if capture_cursor c then [Cursor_capture] else []) @
              [Gs_duplicator_update_frame d, Obs_leave_graphics] \<and>
            fst (duplicator_capture_tick e seconds c) =
              c\<lparr>cursor_data := (if capture_cursor c then cursor_capture e (cursor_data c)
                                else cursor_data c)\<rparr>)"
  using assms
  by (simp add: duplicator_capture_tick_def tick_retry_def tick_frame_def
      reset_capture_data_def Let_def)

theorem tick_geometry_query_witness:
  "duplicator capture_unsized = Some 1 \<and>
   obs_source_showing env_live (source capture_unsized) \<and>
   gs_duplicator_update_frame env_live 1 \<and>
   width capture_unsized = 0 \<and>
   length (filter is_monitor_query
     (snd (duplicator_capture_tick env_live 1 capture_unsized))) = 1 \<and>
   fst (duplicator_capture_tick env_live 1 capture_unsized) = capture_sized \<and>
   duplicator capture_sized = Some 1 \<and>
   obs_source_showing env_live (source capture_sized) \<and>
   width capture_sized \<noteq> 0 \<and>
   filter is_monitor_query (snd (duplicator_capture_tick env_live 1 capture_sized)) = [] \<and>
   fst (duplicator_capture_tick env_live 1 capture_sized) = capture_sized"
proof -
  have u1: "duplicator capture_unsized = Some 1"
    and u2: "obs_source_showing env_live (source capture_unsized)"
    and u3: "gs_duplicator_update_frame env_live 1"
    and u4: "width capture_unsized = 0"
    by (simp_all add: capture_unsized_eq env_live_def)
  have s1: "duplicator capture_sized = Some 1"
    and s2: "obs_source_showing env_live (source capture_sized)"
    and s4: "width capture_sized \<noteq> 0"
    by (simp_all add: capture_sized_eq env_live_def)
  note first = tick_geometry_query [OF u1 u2 u3, of 1, THEN conjunct1, rule_format, OF u4]
  note second = tick_geometry_query [OF s1 s2 u3, of 1, THEN conjunct2, rule_format, OF s4]
  have "fst (duplicator_capture_tick env_live 1 capture_unsized) = capture_sized"
    by (simp add: capture_sized_def)
  moreover have "fst (duplicator_capture_tick env_live 1 capture_sized) = capture_sized"
    using second by (simp add: capture_sized_eq env_live_def)
  ultimately show ?thesis
    using u1 u2 u3 u4 s1 s2 s4 first second by simp
qed

section \<open>Creation and first frame in one tick\<close>

text \<open>
  C10 does not hold as it is stated. A showing tick of a session without a duplicator
  whose retry time reaches 3.0, with a creation and a frame update that both succeed,
  does not always leave a cached width:
  here the new duplicator has no texture yet, and the session ends the tick with the
  duplicator and a width of 0.
\<close>

theorem tick_creates_without_texture:
  "reachable capture_waiting \<and>
   duplicator capture_waiting = None \<and>
   obs_source_showing env_no_frame (source capture_waiting) \<and>
   reset_timeout capture_waiting + 1 \<ge> RESET_INTERVAL_SEC \<and>
   gs_duplicator_create env_no_frame (monitor capture_waiting) = Some 1 \<and>
   gs_duplicator_update_frame env_no_frame 1 \<and>
   \<not> (duplicator (fst (duplicator_capture_tick env_no_frame 1 capture_waiting)) \<noteq> None \<and>
      width (fst (duplicator_capture_tick env_no_frame 1 capture_waiting)) \<noteq> 0)"
proof -
  have "reachable capture_unbound"
    unfolding capture_unbound_def by (rule reachable.created)
  then have "reachable (fst (duplicator_capture_tick env_absent 1 capture_unbound))"
    by (rule reachable.ticked)
  then have "reachable capture_waiting"
    unfolding capture_waiting_def by (rule reachable.ticked)
  then show ?thesis
    by (simp add: capture_waiting_eq duplicator_capture_tick_def tick_retry_def
        tick_frame_def reset_capture_data_def env_no_frame_def env_live_def
        RESET_INTERVAL_SEC_def Let_def)
qed

text \<open>
  C10, as the source has it. Take a reachable session without a duplicator, ticked while
  showing with a frame time that brings the retry time to 3.0 or more, a creation that
  succeeds and a frame update that succeeds. That one tick creates the duplicator,
  updates the frame, asks for the texture and queries the monitor once, in this order,
  and returns the session with the new duplicator, a retry time of 0, and the width and
  height of the texture and the origin and rotation of the monitor information stored.
  The session has a cached width after it exactly when the width reported for the
  texture is not 0.
\<close>

theorem tick_creates_and_samples:
  assumes "reachable c"
    and "duplicator c = None"
    and "obs_source_showing e (source c)"
    and "reset_timeout c + seconds \<ge> RESET_INTERVAL_SEC"
    and "gs_duplicator_create e (monitor c) = Some d"
    and "gs_duplicator_update_frame e d"
  shows "snd (duplicator_capture_tick e seconds c) =
           [Obs_source_showing (source c), Obs_enter_graphics,
            Gs_duplicator_create (monitor c)] @
           (if capture_cursor c then [Cursor_capture] else []) @
           [Gs_duplicator_update_frame d, Gs_duplicator_get_texture (Some d),
            Gs_get_duplicator_monitor_info (monitor c),
            Gs_texture_get_width (gs_duplicator_get_texture e (Some d)),
            Gs_texture_get_height (gs_duplicator_get_texture e (Some d)),
            Obs_leave_graphics] \<and>
         fst (duplicator_capture_tick e seconds c) =
           c\<lparr>duplicator := Some d, reset_timeout := 0,
             cursor_data := (if capture_cursor c then cursor_capture e (cursor_data c)
                             else cursor_data c),
             width := gs_texture_get_width e (gs_duplicator_get_texture e (Some d)),
             height := gs_texture_get_height e (gs_duplicator_get_texture e (Some d)),
             x := info_x (snd (gs_get_duplicator_monitor_info e (monitor c)
                                 zero_monitor_info)),
             y := info_y (snd (gs_get_duplicator_monitor_info e (monitor c)
                                 zero_monitor_info)),
             rot := rotation_degrees (snd (gs_get_duplicator_monitor_info e (monitor c)
                                             zero_monitor_info))\<rparr> \<and>
         ((duplicator (fst (duplicator_capture_tick e seconds c)) \<noteq> None \<and>
           width (fst (duplicator_capture_tick e seconds c)) \<noteq> 0) \<longleftrightarrow>
          gs_texture_get_width e (gs_duplicator_get_texture e (Some d)) \<noteq> 0)"
proof -
  have w: "width c = 0"
    using reachable_unbound_unsized [OF assms(1)] assms(2) by simp
  show ?thesis
    using assms(2-6) w
    by (simp add: duplicator_capture_tick_def tick_retry_def tick_frame_def
        reset_capture_data_def Let_def)
qed

theorem tick_creates_and_samples_witness:
  "reachable capture_waiting \<and>
   duplicator capture_waiting = None \<and>
   obs_source_showing env_live (source capture_waiting) \<and>
   reset_timeout capture_waiting + 1 \<ge> RESET_INTERVAL_SEC \<and>
   gs_duplicator_create env_live (monitor capture_waiting) = Some 1 \<and>
   gs_duplicator_update_frame env_live 1 \<and>
   fst (duplicator_capture_tick env_live 1 capture_waiting) = capture_sized \<and>
   width capture_sized = 1920"
proof -
  have "reachable capture_unbound"
    unfolding capture_unbound_def by (rule reachable.created)
  then have "reachable (fst (duplicator_capture_tick env_absent 1 capture_unbound))"
    by (rule reachable.ticked)
  then have h1: "reachable capture_waiting"
    unfolding capture_waiting_def by (rule reachable.ticked)
  have h2: "duplicator capture_waiting = None"
    and h3: "obs_source_showing env_live (source capture_waiting)"
    and h4: "reset_timeout capture_waiting + 1 \<ge> RESET_INTERVAL_SEC"
    and h5: "gs_duplicator_create env_live (monitor capture_waiting) = Some 1"
    and h6: "gs_duplicator_update_frame env_live 1"
    by (simp_all add: capture_waiting_eq env_live_def RESET_INTERVAL_SEC_def)
  note t = tick_creates_and_samples [OF h1 h2 h3 h4 h5 h6, THEN conjunct2, THEN conjunct1]
  have "fst (duplicator_capture_tick env_live 1 capture_waiting) = capture_sized"
    using t by (simp add: capture_waiting_eq capture_sized_eq env_live_def)
  then show ?thesis
    using h1 h2 h3 h4 h5 h6 by (simp add: capture_sized_eq)
qed

end
